theory Spec2Isabelle
  imports Complex_Main "HOL-Library.Word"
begin

section \<open>The profile settings editor of Xelma-Frontend\<close>

text \<open>
  A shallow embedding of \<^verbatim>\<open>ProfileSettingsModal\<close> (the second document of
  \<^verbatim>\<open>src/components/Header.tsx\<close>): its validation, its draft store, the merge of
  the stored draft over the supplied defaults, and the event handlers and effects of the
  mounted component.

  Functions of the platform that the component calls, and that are no code of the
  repository, are parameters of the model: the hostname that \<^verbatim>\<open>new URL(value)\<close>
  computes, \<^verbatim>\<open>JSON.parse\<close> and \<^verbatim>\<open>localStorage.getItem\<close>. Calls that leave the component
  (\<^verbatim>\<open>localStorage.setItem\<close>, \<^verbatim>\<open>toast.success\<close>, \<^verbatim>\<open>onClose\<close>,
  \<^verbatim>\<open>URL.revokeObjectURL\<close>, ...) are recorded as effects, in the order the code makes
  them.
\<close>

subsection \<open>Strings\<close>

text \<open>
  A JavaScript string is a sequence of UTF-16 code units, and \<^verbatim>\<open>s.length\<close> counts
  code units. \<open>js\<close> turns an ASCII literal into such a string.
\<close>

type_synonym jsstring = "16 word list"

definition js :: "string \<Rightarrow> jsstring" where
  "js s = map of_char s"

text \<open>
  \<^verbatim>\<open>String.prototype.trim\<close> removes the ECMAScript white space and line terminator
  code units from both ends.
\<close>

definition is_ws :: "16 word \<Rightarrow> bool" where
  "is_ws c =
     (c = 0x9 \<or> c = 0xA \<or> c = 0xB \<or> c = 0xC \<or> c = 0xD \<or> c = 0x20 \<or> c = 0xA0
      \<or> c = 0x1680 \<or> (0x2000 \<le> c \<and> c \<le> 0x200A) \<or> c = 0x2028 \<or> c = 0x2029
      \<or> c = 0x202F \<or> c = 0x205F \<or> c = 0x3000 \<or> c = 0xFEFF)"

definition trim :: "jsstring \<Rightarrow> jsstring" where
  "trim s = rev (dropWhile is_ws (rev (dropWhile is_ws s)))"

text \<open>\<^verbatim>\<open>s.startsWith(p)\<close> and \<^verbatim>\<open>s.slice(0, n)\<close> for \<open>n \<ge> 0\<close>.\<close>

definition startsWith :: "jsstring \<Rightarrow> jsstring \<Rightarrow> bool" where
  "startsWith s p = (take (length p) s = p)"

definition slice0 :: "jsstring \<Rightarrow> nat \<Rightarrow> jsstring" where
  "slice0 s n = take n s"

text \<open>The decimal digits of a number, as a template literal prints \<^verbatim>\<open>${BIO_MAX}\<close>.\<close>

fun dec :: "nat \<Rightarrow> jsstring" where
  "dec n = (if n < 10 then [0x30 + of_nat n] else dec (n div 10) @ [0x30 + of_nat (n mod 10)])"

declare dec.simps [simp del]

subsection \<open>Constants and the values record\<close>

definition BIO_MAX :: nat where
  "BIO_MAX = 100"

definition DRAFT_KEY :: jsstring where
  "DRAFT_KEY = js ''profile_settings_draft_v1''"

text \<open>
  \<^verbatim>\<open>type ProfileSettingsValues\<close>. \<open>avatarUrl = None\<close> is \<^verbatim>\<open>null\<close>.
\<close>

record ProfileSettingsValues =
  avatarUrl :: "jsstring option"
  name :: jsstring
  bio :: jsstring
  twitterLink :: jsstring
  streamerMode :: bool

text \<open>
  The \<^verbatim>\<open>errors\<close> state: an object with the optional keys \<^verbatim>\<open>name\<close>,
  \<^verbatim>\<open>bio\<close> and \<^verbatim>\<open>twitterLink\<close>; \<open>None\<close> is a key with no message.
\<close>

record form_errors =
  err_name :: "jsstring option"
  err_bio :: "jsstring option"
  err_twitterLink :: "jsstring option"

definition no_errors :: form_errors where
  "no_errors = \<lparr>err_name = None, err_bio = None, err_twitterLink = None\<rparr>"

subsection \<open>Validation\<close>

text \<open>
  \<^verbatim>\<open>isValidTwitterUrl\<close>. \<open>URL_hostname value\<close> is the \<^verbatim>\<open>hostname\<close> of
  \<^verbatim>\<open>new URL(value)\<close>, and \<open>None\<close> when the constructor throws (the \<^verbatim>\<open>catch\<close>
  branch). \<open>strip_www\<close> is \<^verbatim>\<open>.replace(/^www\./, "")\<close>.
\<close>

definition strip_www :: "jsstring \<Rightarrow> jsstring" where
  "strip_www hostname = (if startsWith hostname (js ''www.'') then drop 4 hostname else hostname)"

definition isValidTwitterUrl :: "(jsstring \<Rightarrow> jsstring option) \<Rightarrow> jsstring \<Rightarrow> bool" where
  "isValidTwitterUrl URL_hostname value =
     (if trim value = [] then True
      else (case URL_hostname value of
              None \<Rightarrow> False
            | Some hostname \<Rightarrow>
                (let host = strip_www hostname
                 in host = js ''x.com'' \<or> host = js ''twitter.com'')))"

text \<open>
  \<^verbatim>\<open>validate\<close>: the next \<^verbatim>\<open>errors\<close> object (\<open>validate_next\<close>), which
  \<^verbatim>\<open>setErrors\<close> stores, and whether it has no key.
\<close>

definition name_message :: jsstring where
  "name_message = js ''Name cannot be empty.''"

definition bio_message :: jsstring where
  "bio_message = js ''Bio must be '' @ dec BIO_MAX @ js '' characters or fewer.''"

definition twitterLink_message :: jsstring where
  "twitterLink_message = js ''Enter a valid X/Twitter URL.''"

definition validate_next ::
  "(jsstring \<Rightarrow> jsstring option) \<Rightarrow> ProfileSettingsValues \<Rightarrow> form_errors" where
  "validate_next URL_hostname v =
     \<lparr>err_name = (if trim (name v) = [] then Some name_message else None),
      err_bio = (if length (bio v) > BIO_MAX then Some bio_message else None),
      err_twitterLink =
        (if \<not> isValidTwitterUrl URL_hostname (twitterLink v) then Some twitterLink_message
         else None)\<rparr>"

definition validate ::
  "(jsstring \<Rightarrow> jsstring option) \<Rightarrow> ProfileSettingsValues \<Rightarrow> form_errors \<times> bool" where
  "validate URL_hostname v =
     (let next = validate_next URL_hostname v in (next, next = no_errors))"

text \<open>
  The messages the specification gives for the bio and the link. The first has the
  code unit U+2264 (less-than or equal to).
\<close>

definition spec_bio_message :: jsstring where
  "spec_bio_message = js ''Bio must be '' @ [0x2264] @ js ''100 characters.''"

definition spec_link_message :: jsstring where
  "spec_link_message = js ''Enter a valid link.''"

subsection \<open>Effects and the draft store's write\<close>

datatype effect =
    Console_log ProfileSettingsValues
  | LocalStorage_setItem jsstring ProfileSettingsValues
  | Toast_success jsstring jsstring
  | OnClose
  | PreventDefault
  | URL_createObjectURL jsstring
  | URL_revokeObjectURL jsstring

text \<open>
  \<^verbatim>\<open>writeDraft\<close>: one call of \<^verbatim>\<open>localStorage.setItem\<close> with the key and
  \<^verbatim>\<open>JSON.stringify(draft)\<close>; the effect keeps the record that is serialized. An exception
  of that call is swallowed, so nothing else happens either way.
\<close>

definition writeDraft :: "ProfileSettingsValues \<Rightarrow> effect list" where
  "writeDraft draft = [LocalStorage_setItem DRAFT_KEY draft]"

subsection \<open>Saving\<close>

text \<open>
  \<^verbatim>\<open>handleSave\<close> on the current values: the \<^verbatim>\<open>errors\<close> that \<^verbatim>\<open>validate\<close> stores
  and the calls made, in order.
\<close>

definition payload :: "ProfileSettingsValues \<Rightarrow> ProfileSettingsValues" where
  "payload v =
     \<lparr>avatarUrl = avatarUrl v,
      name = trim (name v),
      bio = slice0 (bio v) BIO_MAX,
      twitterLink = trim (twitterLink v),
      streamerMode = streamerMode v\<rparr>"

definition handleSave ::
  "(jsstring \<Rightarrow> jsstring option) \<Rightarrow> ProfileSettingsValues \<Rightarrow> form_errors \<times> effect list" where
  "handleSave URL_hostname v =
     (case validate URL_hostname v of
        (next, False) \<Rightarrow> (next, [])
      | (next, True) \<Rightarrow>
          (next,
           [Console_log (payload v)] @
           writeDraft (payload v) @
           [Toast_success (js ''Profile settings saved'')
              (js ''Your changes have been stored on this device.''),
            OnClose]))"

subsection \<open>The draft store's read\<close>

text \<open>
  What \<^verbatim>\<open>JSON.parse\<close> returns. The code never looks into a number, so its value is
  kept only as far as truthiness needs it.
\<close>

datatype json =
    JNull
  | JBool bool
  | JNum rat
  | JStr jsstring
  | JArr "json list"
  | JObj "(jsstring \<times> json) list"

datatype js_error = SecurityError | SyntaxError

definition truthy :: "json \<Rightarrow> bool" where
  "truthy x =
     (case x of JNull \<Rightarrow> False | JBool b \<Rightarrow> b | JNum r \<Rightarrow> r \<noteq> 0 | JStr s \<Rightarrow> s \<noteq> []
      | JArr _ \<Rightarrow> True | JObj _ \<Rightarrow> True)"

definition typeof :: "json \<Rightarrow> jsstring" where
  "typeof x =
     (case x of JNull \<Rightarrow> js ''object'' | JBool _ \<Rightarrow> js ''boolean'' | JNum _ \<Rightarrow> js ''number''
      | JStr _ \<Rightarrow> js ''string'' | JArr _ \<Rightarrow> js ''object'' | JObj _ \<Rightarrow> js ''object'')"

text \<open>
  \<^verbatim>\<open>readDraft\<close>. \<open>getItem\<close> is \<^verbatim>\<open>localStorage.getItem\<close>, which returns a string or
  \<^verbatim>\<open>null\<close> (\<open>None\<close>) or throws; \<open>JSON_parse\<close> returns a value or throws. Either
  exception lands in the \<^verbatim>\<open>catch\<close> branch. The result \<open>None\<close> is \<^verbatim>\<open>null\<close>.
\<close>

definition readDraft ::
  "(jsstring \<Rightarrow> js_error + jsstring option) \<Rightarrow> (jsstring \<Rightarrow> js_error + json) \<Rightarrow> json option" where
  "readDraft getItem JSON_parse =
     (case getItem DRAFT_KEY of
        Inl _ \<Rightarrow> None
      | Inr None \<Rightarrow> None
      | Inr (Some raw) \<Rightarrow>
          if raw = [] then None
          else (case JSON_parse raw of
                  Inl _ \<Rightarrow> None
                | Inr parsed \<Rightarrow>
                    if \<not> truthy parsed \<or> typeof parsed \<noteq> js ''object'' then None
                    else Some parsed))"

subsection \<open>The initial values\<close>

text \<open>
  The \<^verbatim>\<open>initialValues\<close> prop, a \<^verbatim>\<open>Partial<ProfileSettingsValues>\<close> that may be
  missing as a whole: \<open>None\<close> in a field is \<^verbatim>\<open>undefined\<close> (or \<^verbatim>\<open>null\<close>, which
  \<^verbatim>\<open>??\<close> treats alike).
\<close>

record initial_values =
  iv_avatarUrl :: "jsstring option"
  iv_name :: "jsstring option"
  iv_bio :: "jsstring option"
  iv_twitterLink :: "jsstring option"
  iv_streamerMode :: "bool option"

text \<open>An object is a map from its own enumerable keys to their values.\<close>

type_synonym jsobject = "jsstring \<rightharpoonup> json"

definition defaults :: "initial_values option \<Rightarrow> jsobject" where
  "defaults initialValues =
     [js ''avatarUrl'' \<mapsto>
        (case Option.bind initialValues iv_avatarUrl of None \<Rightarrow> JNull | Some u \<Rightarrow> JStr u),
      js ''name'' \<mapsto>
        JStr (case Option.bind initialValues iv_name of None \<Rightarrow> [] | Some x \<Rightarrow> x),
      js ''bio'' \<mapsto>
        JStr (case Option.bind initialValues iv_bio of None \<Rightarrow> [] | Some x \<Rightarrow> x),
      js ''twitterLink'' \<mapsto>
        JStr (case Option.bind initialValues iv_twitterLink of None \<Rightarrow> [] | Some x \<Rightarrow> x),
      js ''streamerMode'' \<mapsto>
        JBool (case Option.bind initialValues iv_streamerMode of None \<Rightarrow> False | Some b \<Rightarrow> b)]"

text \<open>
  The properties that an object spread \<^verbatim>\<open>{...x}\<close> copies: the entries of an object,
  the indices of an array or of a string, nothing of another primitive.
\<close>

definition own_props :: "json \<Rightarrow> jsobject" where
  "own_props x =
     (case x of
        JObj kvs \<Rightarrow> map_of kvs
      | JArr xs \<Rightarrow> map_of (zip (map dec [0..<length xs]) xs)
      | JStr s \<Rightarrow> map_of (zip (map dec [0..<length s]) (map (\<lambda>c. JStr [c]) s))
      | _ \<Rightarrow> Map.empty)"

text \<open>
  The properties of \<^verbatim>\<open>draft ?? {}\<close>: those of the draft, and none when the draft is
  \<^verbatim>\<open>null\<close>.
\<close>

definition draft_props :: "json option \<Rightarrow> jsobject" where
  "draft_props draft = (case draft of None \<Rightarrow> Map.empty | Some d \<Rightarrow> own_props d)"

text \<open>
  \<^verbatim>\<open>initial\<close>: \<^verbatim>\<open>{ ...defaults, ...(draft ?? {}) }\<close>, with the bio cut when it is a
  string longer than \<^verbatim>\<open>BIO_MAX\<close>.
\<close>

definition merged :: "jsobject \<Rightarrow> json option \<Rightarrow> jsobject" where
  "merged dflt draft = dflt ++ (case draft of None \<Rightarrow> Map.empty | Some d \<Rightarrow> own_props d)"

definition initial :: "jsobject \<Rightarrow> json option \<Rightarrow> jsobject" where
  "initial dflt draft =
     (let m = merged dflt draft
      in (case m (js ''bio'') of
            Some (JStr b) \<Rightarrow>
              if length b > BIO_MAX then m(js ''bio'' \<mapsto> JStr (slice0 b BIO_MAX)) else m
          | _ \<Rightarrow> m))"

text \<open>
  The five \<^verbatim>\<open>useState\<close> calls read \<^verbatim>\<open>initial.avatarUrl\<close>, \<^verbatim>\<open>initial.name\<close>,
  \<^verbatim>\<open>initial.bio\<close>, \<^verbatim>\<open>initial.twitterLink\<close> and \<^verbatim>\<open>initial.streamerMode\<close>. When
  each has the type that \<^verbatim>\<open>ProfileSettingsValues\<close> declares, they are the values the
  component starts with; TypeScript does not check the draft at run time, so they may not.
\<close>

definition typed_values :: "jsobject \<Rightarrow> ProfileSettingsValues option" where
  "typed_values ini =
     (case (ini (js ''avatarUrl''), ini (js ''name''), ini (js ''bio''),
            ini (js ''twitterLink''), ini (js ''streamerMode'')) of
        (Some JNull, Some (JStr n), Some (JStr b), Some (JStr l), Some (JBool m)) \<Rightarrow>
          Some \<lparr>avatarUrl = None, name = n, bio = b, twitterLink = l, streamerMode = m\<rparr>
      | (Some (JStr a), Some (JStr n), Some (JStr b), Some (JStr l), Some (JBool m)) \<Rightarrow>
          Some \<lparr>avatarUrl = Some a, name = n, bio = b, twitterLink = l, streamerMode = m\<rparr>
      | _ \<Rightarrow> None)"

subsection \<open>The mounted component\<close>

text \<open>
  The state of a mounted modal: the five values (\<open>avatarUrl\<close> of \<open>vals\<close> is the state
  \<^verbatim>\<open>avatarPreviewUrl\<close>), the \<^verbatim>\<open>errors\<close>, whether the component is mounted, the
  pending timeout of the debounce effect (when it is due and the values its closure
  holds), and the time in milliseconds.
\<close>

record modal =
  vals :: ProfileSettingsValues
  errors :: form_errors
  mounted :: bool
  timer :: "(nat \<times> ProfileSettingsValues) option"
  clock :: nat

text \<open>
  What happens to the modal. \<open>UploadChange (Some url)\<close> is a change of the file input
  with a file, for which \<^verbatim>\<open>URL.createObjectURL\<close> returns \<open>url\<close>; \<open>UploadChange None\<close>
  has no file. \<open>KeyDown key\<close> is a key on \<^verbatim>\<open>window\<close>. \<open>BackdropMouseDown attached inside\<close>
  is a mouse-down on the backdrop: whether \<^verbatim>\<open>modalRef.current\<close> is set, and whether it
  contains the target. \<open>CloseClick\<close> is the close button. \<open>Elapse d\<close> lets \<open>d\<close>
  milliseconds pass. \<open>Unmount\<close> is the host removing the component.
\<close>

datatype event =
    SetName jsstring
  | SetBio jsstring
  | SetTwitterLink jsstring
  | ToggleStreamerMode
  | UploadChange "jsstring option"
  | Save
  | KeyDown jsstring
  | BackdropMouseDown bool bool
  | CloseClick
  | Elapse nat
  | Unmount

text \<open>
  The cleanup of the effect on \<^verbatim>\<open>[avatarPreviewUrl]\<close>, for the value its closure holds.
\<close>

definition revoke_cleanup :: "jsstring option \<Rightarrow> effect list" where
  "revoke_cleanup url =
     (case url of
        None \<Rightarrow> []
      | Some u \<Rightarrow> if startsWith u (js ''blob:'') then [URL_revokeObjectURL u] else [])"

text \<open>
  A render after the state setters of one handler. An effect runs again when one of its
  dependencies changed: the revoke effect cleans up for the previous
  \<^verbatim>\<open>avatarPreviewUrl\<close>; the debounce effect clears its timeout and sets one for 150 ms
  later with the new values.
\<close>

definition render :: "modal \<Rightarrow> ProfileSettingsValues \<Rightarrow> form_errors \<Rightarrow> modal \<times> effect list" where
  "render s v e =
     (s\<lparr>vals := v, errors := e,
        timer := (if v = vals s then timer s else Some (clock s + 150, v))\<rparr>,
      if avatarUrl v = avatarUrl (vals s) then [] else revoke_cleanup (avatarUrl (vals s)))"

text \<open>\<^verbatim>\<open>if (errors.f) setErrors((p) => ({ ...p, f: undefined }))\<close>: a message is truthy
  when it is not the empty string.\<close>

definition has_message :: "jsstring option \<Rightarrow> bool" where
  "has_message m = (case m of None \<Rightarrow> False | Some t \<Rightarrow> t \<noteq> [])"

fun handle :: "(jsstring \<Rightarrow> jsstring option) \<Rightarrow> modal \<Rightarrow> event \<Rightarrow> modal \<times> effect list" where
  "handle P s (SetName x) =
     render s ((vals s)\<lparr>name := x\<rparr>)
       (if has_message (err_name (errors s)) then (errors s)\<lparr>err_name := None\<rparr> else errors s)"
| "handle P s (SetBio x) =
     render s ((vals s)\<lparr>bio := x\<rparr>)
       (if has_message (err_bio (errors s)) then (errors s)\<lparr>err_bio := None\<rparr> else errors s)"
| "handle P s (SetTwitterLink x) =
     render s ((vals s)\<lparr>twitterLink := x\<rparr>)
       (if has_message (err_twitterLink (errors s)) then (errors s)\<lparr>err_twitterLink := None\<rparr>
        else errors s)"
| "handle P s ToggleStreamerMode =
     render s ((vals s)\<lparr>streamerMode := \<not> streamerMode (vals s)\<rparr>) (errors s)"
| "handle P s (UploadChange None) = (s, [])"
| "handle P s (UploadChange (Some url)) =
     (let (s', cleanup) = render s ((vals s)\<lparr>avatarUrl := Some url\<rparr>) (errors s)
      in (s', revoke_cleanup (avatarUrl (vals s)) @ [URL_createObjectURL url] @ cleanup))"
| "handle P s Save =
     (let (next, calls) = handleSave P (vals s);
          (s', cleanup) = render s (vals s) next
      in (s', calls @ cleanup))"
| "handle P s (KeyDown key) =
     (if key = js ''Escape'' then (s, [PreventDefault, OnClose]) else (s, []))"
| "handle P s (BackdropMouseDown attached inside) =
     (if \<not> attached then (s, []) else if \<not> inside then (s, [OnClose]) else (s, []))"
| "handle P s CloseClick = (s, [OnClose])"
| "handle P s (Elapse d) = (s, [])"
| "handle P s Unmount =
     (s\<lparr>mounted := False, timer := None\<rparr>, revoke_cleanup (avatarUrl (vals s)))"

text \<open>
  Time passing: a pending timeout that is due runs \<^verbatim>\<open>writeDraft\<close> on the values it
  holds, at the time it is due.
\<close>

definition elapse :: "modal \<Rightarrow> nat \<Rightarrow> modal \<times> (nat \<times> effect) list" where
  "elapse s d =
     (case timer s of
        None \<Rightarrow> (s\<lparr>clock := clock s + d\<rparr>, [])
      | Some (due, snapshot) \<Rightarrow>
          if due \<le> clock s + d
          then (s\<lparr>clock := clock s + d, timer := None\<rparr>,
                map (Pair (max due (clock s))) (writeDraft snapshot))
          else (s\<lparr>clock := clock s + d\<rparr>, []))"

text \<open>
  One event, with the calls it makes and their times. An unmounted component has no
  listener, no handler and no timeout.
\<close>

definition step ::
  "(jsstring \<Rightarrow> jsstring option) \<Rightarrow> modal \<Rightarrow> event \<Rightarrow> modal \<times> (nat \<times> effect) list" where
  "step P s e =
     (case e of
        Elapse d \<Rightarrow> elapse s d
      | _ \<Rightarrow>
          if mounted s
          then (let (s', calls) = handle P s e in (s', map (Pair (clock s)) calls))
          else (s, []))"

fun run ::
  "(jsstring \<Rightarrow> jsstring option) \<Rightarrow> modal \<Rightarrow> event list \<Rightarrow> modal \<times> (nat \<times> effect) list" where
  "run P s [] = (s, [])"
| "run P s (e # es) =
     (let (s1, l1) = step P s e; (s2, l2) = run P s1 es in (s2, l1 @ l2))"

text \<open>
  Mounting at time \<open>t\<close> with the initial values \<open>v\<close>: the debounce effect sets its first
  timeout.
\<close>

definition mount :: "ProfileSettingsValues \<Rightarrow> nat \<Rightarrow> modal" where
  "mount v t =
     \<lparr>vals = v, errors = no_errors, mounted = True, timer = Some (t + 150, v), clock = t\<rparr>"

text \<open>The calls of one kind in a log.\<close>

definition calls_of :: "(effect \<Rightarrow> bool) \<Rightarrow> (nat \<times> effect) list \<Rightarrow> (nat \<times> effect) list" where
  "calls_of kind l = filter (\<lambda>(t, c). kind c) l"

fun is_setItem :: "effect \<Rightarrow> bool" where
  "is_setItem (LocalStorage_setItem k d) = True"
| "is_setItem c = False"

fun is_revoke :: "effect \<Rightarrow> bool" where
  "is_revoke (URL_revokeObjectURL u) = True"
| "is_revoke c = False"

fun is_onClose :: "effect \<Rightarrow> bool" where
  "is_onClose OnClose = True"
| "is_onClose c = False"

text \<open>
  The dismissal signals: the Escape key on \<^verbatim>\<open>window\<close>, and a mouse-down on the backdrop
  whose target is outside the modal surface.
\<close>

fun dismissal :: "event \<Rightarrow> bool" where
  "dismissal (KeyDown key) = (key = js ''Escape'')"
| "dismissal (BackdropMouseDown attached inside) = (attached \<and> \<not> inside)"
| "dismissal e = False"




text \<open>
  The hostname for the URLs of the specification's scenarios, as the URL parser gives
  it; used for examples only.
\<close>

definition sample_URL_hostname :: "jsstring \<Rightarrow> jsstring option" where
  "sample_URL_hostname value =
     (if value = js ''https://x.com/nova'' then Some (js ''x.com'')
      else if value = js ''https://example.com/x'' then Some (js ''example.com'')
      else if value = js ''https://www.x.com/handle'' then Some (js ''www.x.com'')
      else if value = js ''https://twitter.com/handle'' then Some (js ''twitter.com'')
      else None)"

subsection \<open>Facts about the validators\<close>

lemma dec_BIO_MAX: "dec BIO_MAX = js ''100''"
  by (simp add: BIO_MAX_def js_def dec.simps)

lemma bio_message_text: "bio_message = js ''Bio must be 100 characters or fewer.''"
  by (simp add: bio_message_def dec_BIO_MAX) (simp add: js_def)

lemma trim_Nil_iff: "(trim v = []) = (\<forall>c\<in>set v. is_ws c)"
proof -
  have "(\<forall>c\<in>set (dropWhile is_ws v). is_ws c) = (\<forall>c\<in>set v. is_ws c)"
  proof
    assume rest: "\<forall>c\<in>set (dropWhile is_ws v). is_ws c"
    show "\<forall>c\<in>set v. is_ws c"
    proof (cases "dropWhile is_ws v")
      case Nil
      then show ?thesis by (simp only: dropWhile_eq_Nil_conv)
    next
      case (Cons c cs)
      then have "\<not> is_ws c" using hd_dropWhile [of is_ws v] by simp
      with rest Cons show ?thesis by simp
    qed
  next
    assume "\<forall>c\<in>set v. is_ws c"
    then show "\<forall>c\<in>set (dropWhile is_ws v). is_ws c"
      by (blast dest: set_dropWhileD)
  qed
  then show ?thesis
    by (simp add: trim_def dropWhile_eq_Nil_conv)
qed

lemma strip_www_prefix: "strip_www (js ''www.'' @ h) = h"
  by (simp add: strip_www_def startsWith_def js_def)

lemma sample_hosts:
  "sample_URL_hostname (js ''https://x.com/nova'') = Some (js ''x.com'')"
  "sample_URL_hostname (js ''https://example.com/x'') = Some (js ''example.com'')"
  "sample_URL_hostname (js ''https://www.x.com/handle'') = Some (js ''www.x.com'')"
  "sample_URL_hostname (js ''https://twitter.com/handle'') = Some (js ''twitter.com'')"
  by (simp_all add: sample_URL_hostname_def js_def)

text \<open>
  C4. \<^verbatim>\<open>isValidTwitterUrl\<close> accepts every value that is empty or white space only
  (\<open>trim v = []\<close>, that is, every code unit is white space). Any other value is accepted
  exactly when the URL constructor returns a URL whose hostname, with one leading
  \<^verbatim>\<open>www.\<close> removed, is \<^verbatim>\<open>x.com\<close> or \<^verbatim>\<open>twitter.com\<close>, two different names; a
  value the constructor rejects is not accepted. Given the hostnames that the URL parser
  finds in the three URLs of the specification, the empty string and three spaces are
  accepted, \<^verbatim>\<open>https://example.com/x\<close> is rejected, and \<^verbatim>\<open>https://www.x.com/handle\<close>
  and \<^verbatim>\<open>https://twitter.com/handle\<close> are accepted.
\<close>

theorem isValidTwitterUrl_spec:
  assumes "P (js ''https://example.com/x'') = Some (js ''example.com'')"
    and "P (js ''https://www.x.com/handle'') = Some (js ''www.x.com'')"
    and "P (js ''https://twitter.com/handle'') = Some (js ''twitter.com'')"
  shows "(trim v = []) = (\<forall>c\<in>set v. is_ws c) \<and>
    (trim v = [] \<longrightarrow> isValidTwitterUrl P v) \<and>
    (trim v \<noteq> [] \<longrightarrow>
       isValidTwitterUrl P v =
         (\<exists>h. P v = Some h \<and> (strip_www h = js ''x.com'' \<or> strip_www h = js ''twitter.com''))) \<and>
    (trim v \<noteq> [] \<longrightarrow> P v = None \<longrightarrow> \<not> isValidTwitterUrl P v) \<and>
    strip_www (js ''www.'' @ h) = h \<and>
    (\<not> startsWith h (js ''www.'') \<longrightarrow> strip_www h = h) \<and>
    js ''x.com'' \<noteq> js ''twitter.com'' \<and>
    isValidTwitterUrl P [] \<and>
    isValidTwitterUrl P (js ''   '') \<and>
    \<not> isValidTwitterUrl P (js ''https://example.com/x'') \<and>
    isValidTwitterUrl P (js ''https://www.x.com/handle'') \<and>
    isValidTwitterUrl P (js ''https://twitter.com/handle'')"
proof -
  have general: "trim v \<noteq> [] \<longrightarrow>
       isValidTwitterUrl P v =
         (\<exists>h. P v = Some h \<and> (strip_www h = js ''x.com'' \<or> strip_www h = js ''twitter.com''))"
    by (auto simp: isValidTwitterUrl_def Let_def split: option.splits)
  have blank: "trim v = [] \<longrightarrow> isValidTwitterUrl P v"
    by (simp add: isValidTwitterUrl_def)
  have malformed: "trim v \<noteq> [] \<longrightarrow> P v = None \<longrightarrow> \<not> isValidTwitterUrl P v"
    by (simp add: isValidTwitterUrl_def)
  have keep: "\<not> startsWith h (js ''www.'') \<longrightarrow> strip_www h = h"
    by (simp add: strip_www_def)
  have distinct: "js ''x.com'' \<noteq> js ''twitter.com''"
    by (simp add: js_def)
  have e1: "isValidTwitterUrl P []"
    by (simp add: isValidTwitterUrl_def trim_def)
  have e2: "isValidTwitterUrl P (js ''   '')"
    by (simp add: isValidTwitterUrl_def trim_def js_def is_ws_def)
  have t3: "trim (js ''https://example.com/x'') \<noteq> []"
    and t4: "trim (js ''https://www.x.com/handle'') \<noteq> []"
    and t5: "trim (js ''https://twitter.com/handle'') \<noteq> []"
    by (simp_all add: trim_def js_def is_ws_def)
  have e3: "\<not> isValidTwitterUrl P (js ''https://example.com/x'')"
    using t3 assms(1)
    by (simp add: isValidTwitterUrl_def) (simp add: strip_www_def startsWith_def js_def)
  have e4: "isValidTwitterUrl P (js ''https://www.x.com/handle'')"
    using t4 assms(2)
    by (simp add: isValidTwitterUrl_def) (simp add: strip_www_def startsWith_def js_def)
  have e5: "isValidTwitterUrl P (js ''https://twitter.com/handle'')"
    using t5 assms(3)
    by (simp add: isValidTwitterUrl_def) (simp add: strip_www_def startsWith_def js_def)
  show ?thesis
    using general blank malformed keep distinct e1 e2 e3 e4 e5 strip_www_prefix [of h]
      trim_Nil_iff [of v]
    by blast
qed

theorem isValidTwitterUrl_spec_witness:
  "trim (js ''https://x.com/nova'') \<noteq> [] \<and>
   isValidTwitterUrl sample_URL_hostname (js ''https://x.com/nova'') \<and>
   isValidTwitterUrl sample_URL_hostname [] \<and>
   isValidTwitterUrl sample_URL_hostname (js ''   '') \<and>
   \<not> isValidTwitterUrl sample_URL_hostname (js ''https://example.com/x'') \<and>
   isValidTwitterUrl sample_URL_hostname (js ''https://www.x.com/handle'') \<and>
   isValidTwitterUrl sample_URL_hostname (js ''https://twitter.com/handle'')"
proof -
  have t: "trim (js ''https://x.com/nova'') \<noteq> []"
    by (simp add: trim_def js_def is_ws_def)
  have s: "strip_www (js ''x.com'') = js ''x.com''"
    by (simp add: strip_www_def startsWith_def js_def)
  show ?thesis
    using t s sample_hosts(1)
      isValidTwitterUrl_spec [OF sample_hosts(2) sample_hosts(3) sample_hosts(4),
        of "js ''https://x.com/nova''" "js ''x.com''"]
    by simp
qed

text \<open>
  C9, as the code has it. The bio fails exactly when it is longer than 100 code units,
  and its message is \<^verbatim>\<open>Bio must be 100 characters or fewer.\<close>; a link that fails
  carries the message \<^verbatim>\<open>Enter a valid X/Twitter URL.\<close>
\<close>

theorem validate_next_messages:
  "err_bio (validate_next P v) =
     (if length (bio v) > 100 then Some (js ''Bio must be 100 characters or fewer.'') else None) \<and>
   err_twitterLink (validate_next P v) =
     (if isValidTwitterUrl P (twitterLink v) then None
      else Some (js ''Enter a valid X/Twitter URL.''))"
  by (simp add: validate_next_def bio_message_text twitterLink_message_def BIO_MAX_def)

text \<open>
  C9 as stated fails: for a bio of 101 code units and the link
  \<^verbatim>\<open>https://example.com/x\<close>, both fields fail, and neither message is the one the
  specification gives.
\<close>

theorem validate_messages_counterexample:
  "err_bio (validate_next sample_URL_hostname
      \<lparr>avatarUrl = None, name = js ''Nova'', bio = replicate 101 0x61,
       twitterLink = js ''https://example.com/x'', streamerMode = False\<rparr>)
     = Some (js ''Bio must be 100 characters or fewer.'') \<and>
   js ''Bio must be 100 characters or fewer.'' \<noteq> spec_bio_message \<and>
   err_twitterLink (validate_next sample_URL_hostname
      \<lparr>avatarUrl = None, name = js ''Nova'', bio = replicate 101 0x61,
       twitterLink = js ''https://example.com/x'', streamerMode = False\<rparr>)
     = Some (js ''Enter a valid X/Twitter URL.'') \<and>
   js ''Enter a valid X/Twitter URL.'' \<noteq> spec_link_message"
  apply (simp add: validate_next_def bio_message_text twitterLink_message_def BIO_MAX_def)
  apply (simp add: isValidTwitterUrl_def sample_URL_hostname_def strip_www_def startsWith_def
      trim_def is_ws_def spec_bio_message_def spec_link_message_def js_def)
  done

subsection \<open>Facts about saving\<close>

lemma validate_next_no_errors:
  "(validate_next P v = no_errors) =
     (trim (name v) \<noteq> [] \<and> length (bio v) \<le> BIO_MAX \<and> isValidTwitterUrl P (twitterLink v))"
  by (auto simp: validate_next_def no_errors_def)

lemma render_same_vals: "render s (vals s) e = (s\<lparr>errors := e\<rparr>, [])"
  by (simp add: render_def)

lemma step_Save:
  "mounted s \<Longrightarrow>
   step P s Save =
     (s\<lparr>errors := fst (handleSave P (vals s))\<rparr>, map (Pair (clock s)) (snd (handleSave P (vals s))))"
  by (simp add: step_def render_same_vals split: prod.splits)

text \<open>
  C1. When the modal is mounted and its fields pass validation (the trimmed name is not
  empty, the bio has at most 100 code units, the link is blank or a URL with an
  allow-listed hostname), the save handler stores no error and makes exactly these calls,
  in this order and each once: the console log, the write of the finalized values to the
  draft store (name and link trimmed, bio cut to at most 100 code units), the success
  toast, and the close callback.
\<close>

theorem save_valid:
  assumes "mounted s"
    and "trim (name (vals s)) \<noteq> []"
    and "length (bio (vals s)) \<le> 100"
    and "trim (twitterLink (vals s)) = [] \<or>
         (\<exists>h. P (twitterLink (vals s)) = Some h \<and>
              (strip_www h = js ''x.com'' \<or> strip_www h = js ''twitter.com''))"
    and "p = \<lparr>avatarUrl = avatarUrl (vals s), name = trim (name (vals s)),
              bio = take 100 (bio (vals s)), twitterLink = trim (twitterLink (vals s)),
              streamerMode = streamerMode (vals s)\<rparr>"
  shows "step P s Save =
      (s\<lparr>errors := no_errors\<rparr>,
       [(clock s, Console_log p),
        (clock s, LocalStorage_setItem DRAFT_KEY p),
        (clock s, Toast_success (js ''Profile settings saved'')
                    (js ''Your changes have been stored on this device.'')),
        (clock s, OnClose)]) \<and>
    length (bio p) \<le> 100"
proof -
  have link: "isValidTwitterUrl P (twitterLink (vals s))"
    using assms(4) by (auto simp: isValidTwitterUrl_def Let_def split: option.splits)
  have ok: "validate_next P (vals s) = no_errors"
    using assms(2,3) link by (simp add: validate_next_no_errors BIO_MAX_def)
  have pay: "payload (vals s) = p"
    using assms(5) by (simp add: payload_def slice0_def BIO_MAX_def)
  have "handleSave P (vals s) =
      (no_errors,
       [Console_log p, LocalStorage_setItem DRAFT_KEY p,
        Toast_success (js ''Profile settings saved'')
          (js ''Your changes have been stored on this device.''),
        OnClose])"
    using ok pay by (simp add: handleSave_def validate_def writeDraft_def)
  then show ?thesis
    using assms(1,5) by (simp add: step_Save)
qed

theorem save_valid_witness:
  "step sample_URL_hostname
     (mount \<lparr>avatarUrl = None, name = js '' Nova '', bio = replicate 100 0x61,
             twitterLink = js ''https://x.com/nova'', streamerMode = False\<rparr> 0) Save =
   ((mount \<lparr>avatarUrl = None, name = js '' Nova '', bio = replicate 100 0x61,
             twitterLink = js ''https://x.com/nova'', streamerMode = False\<rparr> 0)
      \<lparr>errors := no_errors\<rparr>,
    [(0, Console_log \<lparr>avatarUrl = None, name = js ''Nova'', bio = replicate 100 0x61,
                       twitterLink = js ''https://x.com/nova'', streamerMode = False\<rparr>),
     (0, LocalStorage_setItem DRAFT_KEY
           \<lparr>avatarUrl = None, name = js ''Nova'', bio = replicate 100 0x61,
            twitterLink = js ''https://x.com/nova'', streamerMode = False\<rparr>),
     (0, Toast_success (js ''Profile settings saved'')
           (js ''Your changes have been stored on this device.'')),
     (0, OnClose)])"
proof -
  let ?v = "\<lparr>avatarUrl = None, name = js '' Nova '', bio = replicate 100 (0x61 :: 16 word),
             twitterLink = js ''https://x.com/nova'', streamerMode = False\<rparr>"
  have m: "mounted (mount ?v 0)" and c: "clock (mount ?v 0) = 0" and v: "vals (mount ?v 0) = ?v"
    by (simp_all add: mount_def)
  have n: "trim (js '' Nova '') = js ''Nova''"
    by (simp add: trim_def js_def is_ws_def)
  have l: "trim (js ''https://x.com/nova'') = js ''https://x.com/nova''"
    by (simp add: trim_def js_def is_ws_def)
  have ne: "js ''Nova'' \<noteq> []"
    by (simp add: js_def)
  have h: "strip_www (js ''x.com'') = js ''x.com''"
    by (simp add: strip_www_def startsWith_def js_def)
  show ?thesis
    using save_valid [of "mount ?v 0" sample_URL_hostname, OF m] n l ne h sample_hosts(1)
    by (simp add: v c)
qed

text \<open>
  C2. When the modal is mounted and a field fails validation, the save handler stores
  the errors of validation, which has a message for exactly the failing fields, and makes
  no call at all: nothing is written to the draft store and the close callback is not
  invoked; the values, the pending timeout and the mounted flag stay as they were. With
  the defaults of an empty name, bio and link, no avatar, streamer mode off and no draft,
  the modal starts with those values, and saving stores just the name's message
  \<^verbatim>\<open>Name cannot be empty.\<close>
\<close>

theorem save_invalid:
  assumes "mounted s"
    and "trim (name (vals s)) = [] \<or> length (bio (vals s)) > 100 \<or>
         \<not> isValidTwitterUrl P (twitterLink (vals s))"
  shows "step P s Save = (s\<lparr>errors := validate_next P (vals s)\<rparr>, []) \<and>
    (err_name (validate_next P (vals s)) \<noteq> None) = (trim (name (vals s)) = []) \<and>
    (err_bio (validate_next P (vals s)) \<noteq> None) = (length (bio (vals s)) > 100) \<and>
    (err_twitterLink (validate_next P (vals s)) \<noteq> None) =
      (\<not> isValidTwitterUrl P (twitterLink (vals s))) \<and>
    typed_values (initial (defaults (Some \<lparr>iv_avatarUrl = None, iv_name = Some [],
        iv_bio = Some [], iv_twitterLink = Some [], iv_streamerMode = Some False\<rparr>)) None) =
      Some \<lparr>avatarUrl = None, name = [], bio = [], twitterLink = [], streamerMode = False\<rparr> \<and>
    step P (mount \<lparr>avatarUrl = None, name = [], bio = [], twitterLink = [],
                   streamerMode = False\<rparr> t) Save =
      ((mount \<lparr>avatarUrl = None, name = [], bio = [], twitterLink = [],
               streamerMode = False\<rparr> t)
         \<lparr>errors := \<lparr>err_name = Some (js ''Name cannot be empty.''), err_bio = None,
                     err_twitterLink = None\<rparr>\<rparr>, [])"
proof -
  have bad: "validate_next P (vals s) \<noteq> no_errors"
    using assms(2) by (auto simp: validate_next_no_errors BIO_MAX_def)
  then have "handleSave P (vals s) = (validate_next P (vals s), [])"
    by (simp add: handleSave_def validate_def)
  then have general: "step P s Save = (s\<lparr>errors := validate_next P (vals s)\<rparr>, [])"
    using assms(1) by (simp add: step_Save)
  have fields:
    "(err_name (validate_next P (vals s)) \<noteq> None) = (trim (name (vals s)) = [])"
    "(err_bio (validate_next P (vals s)) \<noteq> None) = (length (bio (vals s)) > 100)"
    "(err_twitterLink (validate_next P (vals s)) \<noteq> None) =
      (\<not> isValidTwitterUrl P (twitterLink (vals s)))"
    by (simp_all add: validate_next_def BIO_MAX_def)
  let ?e = "\<lparr>avatarUrl = None, name = [], bio = [], twitterLink = [], streamerMode = False\<rparr>"
  have ini: "typed_values (initial (defaults (Some \<lparr>iv_avatarUrl = None, iv_name = Some [],
        iv_bio = Some [], iv_twitterLink = Some [], iv_streamerMode = Some False\<rparr>)) None) = Some ?e"
    by (simp add: typed_values_def initial_def merged_def defaults_def BIO_MAX_def js_def)
  have next_e: "validate_next P ?e =
      \<lparr>err_name = Some (js ''Name cannot be empty.''), err_bio = None, err_twitterLink = None\<rparr>"
    by (simp add: validate_next_def name_message_def isValidTwitterUrl_def trim_def BIO_MAX_def)
  then have "handleSave P ?e =
      (\<lparr>err_name = Some (js ''Name cannot be empty.''), err_bio = None, err_twitterLink = None\<rparr>, [])"
    by (simp add: handleSave_def validate_def no_errors_def)
  then have scenario: "step P (mount ?e t) Save =
      ((mount ?e t)\<lparr>errors := \<lparr>err_name = Some (js ''Name cannot be empty.''), err_bio = None,
                     err_twitterLink = None\<rparr>\<rparr>, [])"
    by (simp add: step_Save mount_def)
  show ?thesis
    using general fields ini scenario by blast
qed

theorem save_invalid_witness:
  "step sample_URL_hostname
     (mount \<lparr>avatarUrl = None, name = js ''Nova'', bio = replicate 105 0x61,
             twitterLink = js ''https://x.com/nova'', streamerMode = False\<rparr> 0) Save =
   ((mount \<lparr>avatarUrl = None, name = js ''Nova'', bio = replicate 105 0x61,
             twitterLink = js ''https://x.com/nova'', streamerMode = False\<rparr> 0)
      \<lparr>errors := \<lparr>err_name = None,
                  err_bio = Some (js ''Bio must be 100 characters or fewer.''),
                  err_twitterLink = None\<rparr>\<rparr>, [])"
proof -
  let ?v = "\<lparr>avatarUrl = None, name = js ''Nova'', bio = replicate 105 (0x61 :: 16 word),
             twitterLink = js ''https://x.com/nova'', streamerMode = False\<rparr>"
  have m: "mounted (mount ?v 0)" and v: "vals (mount ?v 0) = ?v"
    by (simp_all add: mount_def)
  have b: "length (bio (vals (mount ?v 0))) > 100"
    by (simp add: v)
  have n: "trim (js ''Nova'') \<noteq> []"
    by (simp add: trim_def js_def is_ws_def)
  have l: "isValidTwitterUrl sample_URL_hostname (js ''https://x.com/nova'')"
    by (simp add: isValidTwitterUrl_def sample_hosts(1))
      (simp add: strip_www_def startsWith_def js_def)
  have e: "validate_next sample_URL_hostname ?v =
      \<lparr>err_name = None, err_bio = Some (js ''Bio must be 100 characters or fewer.''),
       err_twitterLink = None\<rparr>"
    using n l by (simp add: validate_next_def bio_message_text BIO_MAX_def)
  show ?thesis
    using save_invalid [of "mount ?v 0" sample_URL_hostname, OF m] b e
    by (simp add: v)
qed

subsection \<open>Facts about the initial values\<close>

lemma merged_field:
  "merged dflt draft k =
     (case (case draft of None \<Rightarrow> None | Some d \<Rightarrow> own_props d k) of
        Some x \<Rightarrow> Some x
      | None \<Rightarrow> dflt k)"
  by (simp add: merged_def map_add_def split: option.splits)

lemma initial_other: "k \<noteq> js ''bio'' \<Longrightarrow> initial dflt draft k = merged dflt draft k"
  by (simp add: initial_def Let_def split: option.splits json.splits)

lemma initial_bio_string:
  "merged dflt draft (js ''bio'') = Some (JStr b) \<Longrightarrow>
   initial dflt draft (js ''bio'') = Some (JStr (if length b > 100 then take 100 b else b))"
  by (simp add: initial_def Let_def BIO_MAX_def slice0_def)

lemma initial_bio_other:
  "\<forall>b. merged dflt draft (js ''bio'') \<noteq> Some (JStr b) \<Longrightarrow> initial dflt draft = merged dflt draft"
  by (simp add: initial_def Let_def split: option.splits json.splits)

lemma merged_draft_props:
  "merged dflt draft k = (case draft_props draft k of Some x \<Rightarrow> Some x | None \<Rightarrow> dflt k)"
  by (simp add: merged_def draft_props_def map_add_def split: option.splits)

lemma defaults_values:
  "defaults iv (js ''avatarUrl'') =
     Some (case Option.bind iv iv_avatarUrl of None \<Rightarrow> JNull | Some u \<Rightarrow> JStr u)"
  "defaults iv (js ''name'') =
     Some (JStr (case Option.bind iv iv_name of None \<Rightarrow> [] | Some x \<Rightarrow> x))"
  "defaults iv (js ''bio'') =
     Some (JStr (case Option.bind iv iv_bio of None \<Rightarrow> [] | Some x \<Rightarrow> x))"
  "defaults iv (js ''twitterLink'') =
     Some (JStr (case Option.bind iv iv_twitterLink of None \<Rightarrow> [] | Some x \<Rightarrow> x))"
  "defaults iv (js ''streamerMode'') =
     Some (JBool (case Option.bind iv iv_streamerMode of None \<Rightarrow> False | Some b \<Rightarrow> b))"
  by (simp_all add: defaults_def js_def)

lemma defaults_other:
  "k \<notin> {js ''avatarUrl'', js ''name'', js ''bio'', js ''twitterLink'', js ''streamerMode''} \<Longrightarrow>
   defaults iv k = None"
  by (simp add: defaults_def)

lemma field_names_not_bio:
  "js ''avatarUrl'' \<noteq> js ''bio''" "js ''name'' \<noteq> js ''bio''"
  "js ''twitterLink'' \<noteq> js ''bio''" "js ''streamerMode'' \<noteq> js ''bio''"
  by (simp_all add: js_def)

lemma initial_bio_cases:
  "initial dflt draft (js ''bio'') =
     (case merged dflt draft (js ''bio'') of
        Some (JStr b) \<Rightarrow> Some (JStr (if length b > 100 then take 100 b else b))
      | y \<Rightarrow> y)"
  by (simp add: initial_def Let_def BIO_MAX_def slice0_def split: option.splits json.splits)

lemma typed_values_fields:
  assumes "typed_values ini = Some v"
  shows "ini (js ''avatarUrl'') = Some (case avatarUrl v of None \<Rightarrow> JNull | Some a \<Rightarrow> JStr a)"
    and "ini (js ''name'') = Some (JStr (name v))"
    and "ini (js ''bio'') = Some (JStr (bio v))"
    and "ini (js ''twitterLink'') = Some (JStr (twitterLink v))"
    and "ini (js ''streamerMode'') = Some (JBool (streamerMode v))"
  using assms unfolding typed_values_def
  by (auto split: option.splits json.splits)

lemma typed_values_no_draft:
  "typed_values (initial (defaults iv) None) =
     Some \<lparr>avatarUrl = Option.bind iv iv_avatarUrl,
           name = (case Option.bind iv iv_name of None \<Rightarrow> [] | Some x \<Rightarrow> x),
           bio = take 100 (case Option.bind iv iv_bio of None \<Rightarrow> [] | Some x \<Rightarrow> x),
           twitterLink = (case Option.bind iv iv_twitterLink of None \<Rightarrow> [] | Some x \<Rightarrow> x),
           streamerMode = (case Option.bind iv iv_streamerMode of None \<Rightarrow> False | Some b \<Rightarrow> b)\<rparr>"
proof -
  have m: "merged (defaults iv) None = defaults iv"
    by (simp add: merged_def)
  have other: "initial (defaults iv) None (js ''avatarUrl'') = defaults iv (js ''avatarUrl'')"
    "initial (defaults iv) None (js ''name'') = defaults iv (js ''name'')"
    "initial (defaults iv) None (js ''twitterLink'') = defaults iv (js ''twitterLink'')"
    "initial (defaults iv) None (js ''streamerMode'') = defaults iv (js ''streamerMode'')"
    using field_names_not_bio by (simp_all add: initial_other m)
  have b: "initial (defaults iv) None (js ''bio'') =
      Some (JStr (take 100 (case Option.bind iv iv_bio of None \<Rightarrow> [] | Some x \<Rightarrow> x)))"
    by (simp add: initial_bio_cases m defaults_values(3))
  show ?thesis
    unfolding typed_values_def other b defaults_values
    by (simp split: option.splits)
qed

text \<open>
  C3. For every \<^verbatim>\<open>initialValues\<close> and every stored draft, each of the five fields
  of the initial object is the draft's value when the draft has that field, and otherwise
  the value the host supplied (or, when the host supplied none, \<^verbatim>\<open>null\<close> for the
  avatar, the empty string for name, bio and link, \<^verbatim>\<open>false\<close> for streamer mode); a
  bio that is a string of more than 100 code units is cut to its first 100, so that it
  has length exactly 100. Any other key of the initial object comes from the draft. The
  values the component starts with are these five fields; with no draft they are the
  host's values, the bio cut to 100.
\<close>

theorem initial_spec:
  "merged (defaults iv) draft k =
     (case (case draft of None \<Rightarrow> None | Some d \<Rightarrow> own_props d k) of
        Some x \<Rightarrow> Some x
      | None \<Rightarrow> defaults iv k) \<and>
   (k \<noteq> js ''bio'' \<longrightarrow> initial (defaults iv) draft k = merged (defaults iv) draft k) \<and>
   (merged (defaults iv) draft (js ''bio'') = Some (JStr b) \<and> length b > 100 \<longrightarrow>
      initial (defaults iv) draft (js ''bio'') = Some (JStr (take 100 b)) \<and>
      length (take 100 b) = 100) \<and>
   (merged (defaults iv) draft (js ''bio'') = Some (JStr b) \<and> length b \<le> 100 \<longrightarrow>
      initial (defaults iv) draft (js ''bio'') = Some (JStr b)) \<and>
   draft_props None k = None \<and>
   draft_props (Some (JObj kvs)) k = map_of kvs k \<and>
   initial (defaults iv) draft (js ''avatarUrl'') =
     Some (case draft_props draft (js ''avatarUrl'') of
             Some x \<Rightarrow> x
           | None \<Rightarrow> (case Option.bind iv iv_avatarUrl of None \<Rightarrow> JNull | Some u \<Rightarrow> JStr u)) \<and>
   initial (defaults iv) draft (js ''name'') =
     Some (case draft_props draft (js ''name'') of
             Some x \<Rightarrow> x
           | None \<Rightarrow> JStr (case Option.bind iv iv_name of None \<Rightarrow> [] | Some x \<Rightarrow> x)) \<and>
   initial (defaults iv) draft (js ''bio'') =
     Some (case (case draft_props draft (js ''bio'') of
                   Some x \<Rightarrow> x
                 | None \<Rightarrow> JStr (case Option.bind iv iv_bio of None \<Rightarrow> [] | Some x \<Rightarrow> x)) of
             JStr c \<Rightarrow> JStr (if length c > 100 then take 100 c else c)
           | y \<Rightarrow> y) \<and>
   initial (defaults iv) draft (js ''twitterLink'') =
     Some (case draft_props draft (js ''twitterLink'') of
             Some x \<Rightarrow> x
           | None \<Rightarrow> JStr (case Option.bind iv iv_twitterLink of None \<Rightarrow> [] | Some x \<Rightarrow> x)) \<and>
   initial (defaults iv) draft (js ''streamerMode'') =
     Some (case draft_props draft (js ''streamerMode'') of
             Some x \<Rightarrow> x
           | None \<Rightarrow>
               JBool (case Option.bind iv iv_streamerMode of None \<Rightarrow> False | Some m \<Rightarrow> m)) \<and>
   (k \<notin> {js ''avatarUrl'', js ''name'', js ''bio'', js ''twitterLink'', js ''streamerMode''} \<longrightarrow>
      initial (defaults iv) draft k = draft_props draft k) \<and>
   (typed_values (initial (defaults iv) draft) = Some v \<longrightarrow>
      vals (mount v t) = v \<and>
      initial (defaults iv) draft (js ''avatarUrl'') =
        Some (case avatarUrl v of None \<Rightarrow> JNull | Some a \<Rightarrow> JStr a) \<and>
      initial (defaults iv) draft (js ''name'') = Some (JStr (name v)) \<and>
      initial (defaults iv) draft (js ''bio'') = Some (JStr (bio v)) \<and>
      initial (defaults iv) draft (js ''twitterLink'') = Some (JStr (twitterLink v)) \<and>
      initial (defaults iv) draft (js ''streamerMode'') = Some (JBool (streamerMode v))) \<and>
   typed_values (initial (defaults iv) None) =
     Some \<lparr>avatarUrl = Option.bind iv iv_avatarUrl,
           name = (case Option.bind iv iv_name of None \<Rightarrow> [] | Some x \<Rightarrow> x),
           bio = take 100 (case Option.bind iv iv_bio of None \<Rightarrow> [] | Some x \<Rightarrow> x),
           twitterLink = (case Option.bind iv iv_twitterLink of None \<Rightarrow> [] | Some x \<Rightarrow> x),
           streamerMode =
             (case Option.bind iv iv_streamerMode of None \<Rightarrow> False | Some m \<Rightarrow> m)\<rparr>"
proof -
  have general: "merged (defaults iv) draft k =
     (case (case draft of None \<Rightarrow> None | Some d \<Rightarrow> own_props d k) of
        Some x \<Rightarrow> Some x
      | None \<Rightarrow> defaults iv k)"
    by (rule merged_field)
  have other: "k \<noteq> js ''bio'' \<longrightarrow> initial (defaults iv) draft k = merged (defaults iv) draft k"
    by (simp add: initial_other)
  have long: "merged (defaults iv) draft (js ''bio'') = Some (JStr b) \<and> length b > 100 \<longrightarrow>
      initial (defaults iv) draft (js ''bio'') = Some (JStr (take 100 b)) \<and>
      length (take 100 b) = 100"
    using initial_bio_string [of "defaults iv" draft b] by auto
  have short: "merged (defaults iv) draft (js ''bio'') = Some (JStr b) \<and> length b \<le> 100 \<longrightarrow>
      initial (defaults iv) draft (js ''bio'') = Some (JStr b)"
    using initial_bio_string [of "defaults iv" draft b] by auto
  have props: "draft_props None k = None" "draft_props (Some (JObj kvs)) k = map_of kvs k"
    by (simp_all add: draft_props_def own_props_def)
  have avatar: "initial (defaults iv) draft (js ''avatarUrl'') =
     Some (case draft_props draft (js ''avatarUrl'') of
             Some x \<Rightarrow> x
           | None \<Rightarrow> (case Option.bind iv iv_avatarUrl of None \<Rightarrow> JNull | Some u \<Rightarrow> JStr u))"
    by (simp add: initial_other field_names_not_bio merged_draft_props defaults_values
        split: option.splits)
  have nm: "initial (defaults iv) draft (js ''name'') =
     Some (case draft_props draft (js ''name'') of
             Some x \<Rightarrow> x
           | None \<Rightarrow> JStr (case Option.bind iv iv_name of None \<Rightarrow> [] | Some x \<Rightarrow> x))"
    by (simp add: initial_other field_names_not_bio merged_draft_props defaults_values
        split: option.splits)
  have bi: "initial (defaults iv) draft (js ''bio'') =
     Some (case (case draft_props draft (js ''bio'') of
                   Some x \<Rightarrow> x
                 | None \<Rightarrow> JStr (case Option.bind iv iv_bio of None \<Rightarrow> [] | Some x \<Rightarrow> x)) of
             JStr c \<Rightarrow> JStr (if length c > 100 then take 100 c else c)
           | y \<Rightarrow> y)"
    by (simp add: initial_bio_cases merged_draft_props defaults_values
        split: option.splits json.splits)
  have link: "initial (defaults iv) draft (js ''twitterLink'') =
     Some (case draft_props draft (js ''twitterLink'') of
             Some x \<Rightarrow> x
           | None \<Rightarrow> JStr (case Option.bind iv iv_twitterLink of None \<Rightarrow> [] | Some x \<Rightarrow> x))"
    by (simp add: initial_other field_names_not_bio merged_draft_props defaults_values
        split: option.splits)
  have mode: "initial (defaults iv) draft (js ''streamerMode'') =
     Some (case draft_props draft (js ''streamerMode'') of
             Some x \<Rightarrow> x
           | None \<Rightarrow>
               JBool (case Option.bind iv iv_streamerMode of None \<Rightarrow> False | Some m \<Rightarrow> m))"
    by (simp add: initial_other field_names_not_bio merged_draft_props defaults_values
        split: option.splits)
  have rest: "k \<notin> {js ''avatarUrl'', js ''name'', js ''bio'', js ''twitterLink'', js ''streamerMode''} \<longrightarrow>
      initial (defaults iv) draft k = draft_props draft k"
    by (auto simp: initial_other merged_draft_props defaults_other split: option.splits)
  have state: "typed_values (initial (defaults iv) draft) = Some v \<longrightarrow>
      vals (mount v t) = v \<and>
      initial (defaults iv) draft (js ''avatarUrl'') =
        Some (case avatarUrl v of None \<Rightarrow> JNull | Some a \<Rightarrow> JStr a) \<and>
      initial (defaults iv) draft (js ''name'') = Some (JStr (name v)) \<and>
      initial (defaults iv) draft (js ''bio'') = Some (JStr (bio v)) \<and>
      initial (defaults iv) draft (js ''twitterLink'') = Some (JStr (twitterLink v)) \<and>
      initial (defaults iv) draft (js ''streamerMode'') = Some (JBool (streamerMode v))"
    using typed_values_fields [of "initial (defaults iv) draft" v]
    by (simp add: mount_def)
  note nodraft = typed_values_no_draft [of iv]
  show ?thesis
    using general other long short props avatar nm bi link mode rest state nodraft
    by (intro conjI)
qed

theorem initial_spec_witness:
  "initial (defaults (Some \<lparr>iv_avatarUrl = Some (js ''https://cdn.example/a.png''),
       iv_name = Some (js ''Host''), iv_bio = None,
       iv_twitterLink = Some (js ''https://x.com/host''), iv_streamerMode = Some True\<rparr>))
     (Some (JObj [(js ''name'', JStr (js ''Nova'')), (js ''bio'', JStr (replicate 105 0x61))]))
     (js ''twitterLink'') = Some (JStr (js ''https://x.com/host'')) \<and>
   typed_values (initial (defaults (Some \<lparr>iv_avatarUrl = Some (js ''https://cdn.example/a.png''),
       iv_name = Some (js ''Host''), iv_bio = None,
       iv_twitterLink = Some (js ''https://x.com/host''), iv_streamerMode = Some True\<rparr>))
     (Some (JObj [(js ''name'', JStr (js ''Nova'')), (js ''bio'', JStr (replicate 105 0x61))]))) =
     Some \<lparr>avatarUrl = Some (js ''https://cdn.example/a.png''), name = js ''Nova'',
           bio = replicate 100 0x61, twitterLink = js ''https://x.com/host'',
           streamerMode = True\<rparr> \<and>
   typed_values (initial (defaults (Some \<lparr>iv_avatarUrl = Some (js ''https://cdn.example/a.png''),
       iv_name = Some (js ''Host''), iv_bio = None,
       iv_twitterLink = Some (js ''https://x.com/host''), iv_streamerMode = Some True\<rparr>))
     None) =
     Some \<lparr>avatarUrl = Some (js ''https://cdn.example/a.png''), name = js ''Host'',
           bio = [], twitterLink = js ''https://x.com/host'', streamerMode = True\<rparr>"
proof -
  let ?iv = "Some \<lparr>iv_avatarUrl = Some (js ''https://cdn.example/a.png''),
       iv_name = Some (js ''Host''), iv_bio = None,
       iv_twitterLink = Some (js ''https://x.com/host''), iv_streamerMode = Some True\<rparr>"
  let ?kvs = "[(js ''name'', JStr (js ''Nova'')), (js ''bio'', JStr (replicate 105 0x61))]"
  have d: "draft_props (Some (JObj ?kvs)) (js ''avatarUrl'') = None"
    "draft_props (Some (JObj ?kvs)) (js ''name'') = Some (JStr (js ''Nova''))"
    "draft_props (Some (JObj ?kvs)) (js ''bio'') = Some (JStr (replicate 105 0x61))"
    "draft_props (Some (JObj ?kvs)) (js ''twitterLink'') = None"
    "draft_props (Some (JObj ?kvs)) (js ''streamerMode'') = None"
    by (simp_all add: draft_props_def own_props_def js_def)
  note spec = initial_spec [of ?iv "Some (JObj ?kvs)" "js ''name''" "replicate 105 0x61" ?kvs]
  have fields:
    "initial (defaults ?iv) (Some (JObj ?kvs)) (js ''avatarUrl'') =
       Some (JStr (js ''https://cdn.example/a.png''))"
    "initial (defaults ?iv) (Some (JObj ?kvs)) (js ''name'') = Some (JStr (js ''Nova''))"
    "initial (defaults ?iv) (Some (JObj ?kvs)) (js ''bio'') = Some (JStr (replicate 100 0x61))"
    "initial (defaults ?iv) (Some (JObj ?kvs)) (js ''twitterLink'') =
       Some (JStr (js ''https://x.com/host''))"
    "initial (defaults ?iv) (Some (JObj ?kvs)) (js ''streamerMode'') = Some (JBool True)"
    using spec d by simp_all
  have typed: "typed_values (initial (defaults ?iv) (Some (JObj ?kvs))) =
     Some \<lparr>avatarUrl = Some (js ''https://cdn.example/a.png''), name = js ''Nova'',
           bio = replicate 100 0x61, twitterLink = js ''https://x.com/host'',
           streamerMode = True\<rparr>"
    unfolding typed_values_def fields by simp
  have nodraft: "typed_values (initial (defaults ?iv) None) =
     Some \<lparr>avatarUrl = Some (js ''https://cdn.example/a.png''), name = js ''Host'',
           bio = [], twitterLink = js ''https://x.com/host'', streamerMode = True\<rparr>"
    using spec by simp
  show ?thesis
    using fields(4) typed nodraft by (intro conjI)
qed

text \<open>
  C10. When the draft that \<^verbatim>\<open>readDraft\<close> returns has a bio that is not a string, the
  initial object has that very value as its bio and is the merged object unchanged: the
  cut applies to strings only, and the values the component starts with are not of the
  declared type. \<^verbatim>\<open>readDraft\<close> returns any object that \<^verbatim>\<open>JSON.parse\<close> yields as it
  is, whatever its fields hold.
\<close>

theorem draft_bio_untyped:
  assumes "readDraft getItem JSON_parse = Some d"
    and "own_props d (js ''bio'') = Some x"
    and "\<forall>b. x \<noteq> JStr b"
  shows "initial (defaults iv) (Some d) (js ''bio'') = Some x \<and>
    initial (defaults iv) (Some d) = merged (defaults iv) (Some d) \<and>
    typed_values (initial (defaults iv) (Some d)) = None \<and>
    (\<forall>raw kvs. getItem DRAFT_KEY = Inr (Some raw) \<and> raw \<noteq> [] \<and> JSON_parse raw = Inr (JObj kvs) \<longrightarrow>
       readDraft getItem JSON_parse = Some (JObj kvs))"
proof -
  have m: "merged (defaults iv) (Some d) (js ''bio'') = Some x"
    using assms(2) by (simp add: merged_field)
  then have eq: "initial (defaults iv) (Some d) = merged (defaults iv) (Some d)"
    using assms(3) by (simp add: initial_bio_other)
  have ty: "typed_values (initial (defaults iv) (Some d)) = None"
    using m assms(3) unfolding eq typed_values_def
    by (auto split: option.splits json.splits)
  have rd: "\<forall>raw kvs. getItem DRAFT_KEY = Inr (Some raw) \<and> raw \<noteq> [] \<and> JSON_parse raw = Inr (JObj kvs) \<longrightarrow>
       readDraft getItem JSON_parse = Some (JObj kvs)"
    by (simp add: readDraft_def truthy_def typeof_def)
  show ?thesis
    using m eq ty rd by simp
qed

theorem draft_bio_untyped_witness:
  "readDraft (\<lambda>k. Inr (Some (js ''{'' @ [0x22] @ js ''bio'' @ [0x22] @ js '':42}'')))
     (\<lambda>raw. Inr (JObj [(js ''bio'', JNum 42)])) =
     Some (JObj [(js ''bio'', JNum 42)]) \<and>
   initial (defaults None) (Some (JObj [(js ''bio'', JNum 42)])) (js ''bio'') = Some (JNum 42) \<and>
   typed_values (initial (defaults None) (Some (JObj [(js ''bio'', JNum 42)]))) = None"
proof -
  have r: "readDraft (\<lambda>k. Inr (Some (js ''{'' @ [0x22] @ js ''bio'' @ [0x22] @ js '':42}'')))
     (\<lambda>raw. Inr (JObj [(js ''bio'', JNum 42)])) =
     Some (JObj [(js ''bio'', JNum 42)])"
    by (simp add: readDraft_def truthy_def typeof_def js_def)
  have p: "own_props (JObj [(js ''bio'', JNum 42)]) (js ''bio'') = Some (JNum 42)"
    by (simp add: own_props_def)
  show ?thesis
    using draft_bio_untyped [OF r p, of None] r by blast
qed

subsection \<open>Facts about the mounted component\<close>

lemma calls_of_Nil [simp]: "calls_of k [] = []"
  by (simp add: calls_of_def)

lemma calls_of_append [simp]: "calls_of k (xs @ ys) = calls_of k xs @ calls_of k ys"
  by (simp add: calls_of_def)

lemma calls_of_Cons [simp]:
  "calls_of k ((t, c) # l) = (if k c then (t, c) # calls_of k l else calls_of k l)"
  by (simp add: calls_of_def)

lemma run_Cons_fst: "fst (run P s (e # es)) = fst (run P (fst (step P s e)) es)"
  by (simp split: prod.splits)

lemma run_Cons_snd:
  "snd (run P s (e # es)) = snd (step P s e) @ snd (run P (fst (step P s e)) es)"
  by (simp split: prod.splits)

lemma setItem_revoke_cleanup [simp]:
  "calls_of is_setItem (map (Pair t) (revoke_cleanup u)) = []"
  by (simp add: revoke_cleanup_def split: option.splits)









lemma dismissal_step:
  assumes "mounted s" and "dismissal e"
  shows "fst (step P s e) = s \<and> calls_of is_onClose (snd (step P s e)) = [(clock s, OnClose)]"
  using assms by (cases e) (auto simp: step_def)

lemma dismissals_run:
  assumes "mounted s" and "\<forall>e\<in>set ds. dismissal e"
  shows "fst (run P s ds) = s \<and>
    calls_of is_onClose (snd (run P s ds)) = replicate (length ds) (clock s, OnClose)"
  using assms
proof (induction ds)
  case Nil
  then show ?case by simp
next
  case (Cons e ds)
  then have "dismissal e" by simp
  from dismissal_step [OF Cons.prems(1) this, of P] Cons show ?case
    by (simp add: run_Cons_fst run_Cons_snd del: run.simps(2))
qed

lemma unmounted_step:
  assumes "\<not> mounted s" and "timer s = None"
  shows "\<not> mounted (fst (step P s e)) \<and> timer (fst (step P s e)) = None \<and> snd (step P s e) = []"
  using assms by (cases e) (auto simp: step_def elapse_def)

lemma unmounted_run:
  assumes "\<not> mounted s" and "timer s = None"
  shows "snd (run P s es) = []"
  using assms
proof (induction es arbitrary: s)
  case Nil
  then show ?case by simp
next
  case (Cons e es)
  from unmounted_step [OF Cons.prems, of P e] Cons.IH [of "fst (step P s e)"] show ?case
    by (simp add: run_Cons_snd del: run.simps(2))
qed

lemma step_Unmount:
  "mounted s \<Longrightarrow>
   step P s Unmount =
     (s\<lparr>mounted := False, timer := None\<rparr>, map (Pair (clock s)) (revoke_cleanup (avatarUrl (vals s))))"
  by (simp add: step_def)

text \<open>
  C8, as the code has it. While the modal is mounted, every dismissal signal (the Escape
  key, or a mouse-down outside the modal surface) invokes the close callback once and
  leaves the state as it was, so that a sequence of such signals invokes it once per
  signal. Once the host has unmounted the modal, no event makes any call.
\<close>

theorem dismissal_each_time:
  assumes "mounted s" and "\<forall>e\<in>set ds. dismissal e"
  shows "fst (run P s ds) = s \<and>
    calls_of is_onClose (snd (run P s ds)) = replicate (length ds) (clock s, OnClose) \<and>
    snd (run P (fst (step P s Unmount)) es) = []"
proof -
  have "\<not> mounted (fst (step P s Unmount))" "timer (fst (step P s Unmount)) = None"
    using assms(1) by (simp_all add: step_Unmount)
  then have "snd (run P (fst (step P s Unmount)) es) = []"
    by (rule unmounted_run)
  with dismissals_run [OF assms, of P] show ?thesis by simp
qed

theorem dismissal_each_time_witness:
  "calls_of is_onClose
     (snd (run sample_URL_hostname
        (mount \<lparr>avatarUrl = None, name = [], bio = [], twitterLink = [],
                streamerMode = False\<rparr> 0)
        [KeyDown (js ''Escape''), BackdropMouseDown True False, KeyDown (js ''Escape'')])) =
   [(0, OnClose), (0, OnClose), (0, OnClose)] \<and>
   snd (run sample_URL_hostname
      (fst (step sample_URL_hostname
         (mount \<lparr>avatarUrl = None, name = [], bio = [], twitterLink = [],
                 streamerMode = False\<rparr> 0) Unmount))
      [KeyDown (js ''Escape''), BackdropMouseDown True False]) = []"
proof -
  let ?v = "\<lparr>avatarUrl = None, name = [], bio = [], twitterLink = [], streamerMode = False\<rparr>"
  have m: "mounted (mount ?v 0)" and c: "clock (mount ?v 0) = 0"
    by (simp_all add: mount_def)
  have d: "\<forall>e\<in>set [KeyDown (js ''Escape''), BackdropMouseDown True False, KeyDown (js ''Escape'')].
      dismissal e"
    by simp
  show ?thesis
    using dismissal_each_time [OF m d, of sample_URL_hostname
        "[KeyDown (js ''Escape''), BackdropMouseDown True False]"] c
    by (simp add: numeral_3_eq_3)
qed

text \<open>
  C8 as stated fails: two presses of Escape on a mounted modal invoke the close callback
  twice.
\<close>

theorem repeated_escape_counterexample:
  "calls_of is_onClose
     (snd (run sample_URL_hostname
        (mount \<lparr>avatarUrl = None, name = [], bio = [], twitterLink = [],
                streamerMode = False\<rparr> 0)
        [KeyDown (js ''Escape''), KeyDown (js ''Escape'')])) =
   [(0, OnClose), (0, OnClose)]"
  by (simp add: step_def mount_def)

lemma revoke_cleanup_marked:
  "URL_revokeObjectURL u \<in> set (revoke_cleanup x) \<Longrightarrow> startsWith u (js ''blob:'')"
  by (auto simp: revoke_cleanup_def split: option.splits if_splits)

lemma handleSave_no_revoke: "URL_revokeObjectURL u \<notin> set (snd (handleSave P v))"
  by (auto simp: handleSave_def validate_def writeDraft_def Let_def split: bool.splits)

lemma handle_revoke_marked:
  "URL_revokeObjectURL u \<in> set (snd (handle P s e)) \<Longrightarrow> startsWith u (js ''blob:'')"
proof (cases e)
  case (UploadChange f)
  assume "URL_revokeObjectURL u \<in> set (snd (handle P s e))"
  with UploadChange show ?thesis
    by (cases f) (auto simp: render_def dest: revoke_cleanup_marked split: if_splits)
next
  case Save
  assume "URL_revokeObjectURL u \<in> set (snd (handle P s e))"
  with Save handleSave_no_revoke [of u P "vals s"] show ?thesis
    by (auto simp: render_def split: prod.splits)
qed (auto simp: render_def dest: revoke_cleanup_marked split: if_splits)

lemma step_revoke_marked:
  assumes "(t, URL_revokeObjectURL u) \<in> set (snd (step P s e))"
  shows "startsWith u (js ''blob:'')"
proof (cases "\<exists>d. e = Elapse d")
  case True
  with assms show ?thesis
    by (auto simp: step_def elapse_def writeDraft_def split: option.splits if_splits)
next
  case False
  with assms have "URL_revokeObjectURL u \<in> set (snd (handle P s e))"
    by (cases e) (auto simp: step_def split: if_splits prod.splits)
  then show ?thesis by (rule handle_revoke_marked)
qed

lemma run_revoke_marked:
  "(t, URL_revokeObjectURL u) \<in> set (snd (run P s es)) \<Longrightarrow> startsWith u (js ''blob:'')"
proof (induction es arbitrary: s)
  case Nil
  then show ?case by simp
next
  case (Cons e es)
  then show ?case
    by (auto simp: run_Cons_snd dest: step_revoke_marked simp del: run.simps(2))
qed

text \<open>
  C7, as the code has it. An avatar value that the modal starts with and that does not
  begin with \<^verbatim>\<open>blob:\<close> is never passed to \<^verbatim>\<open>URL.revokeObjectURL\<close>, whatever events
  follow.
\<close>

theorem unmarked_initial_never_revoked:
  assumes "avatarUrl v = Some a" and "\<not> startsWith a (js ''blob:'')"
  shows "(t, URL_revokeObjectURL a) \<notin> set (snd (run P (mount v t0) es))"
  using assms(2) run_revoke_marked [of t a P "mount v t0" es] by blast

theorem unmarked_initial_never_revoked_witness:
  "(0, URL_revokeObjectURL (js ''https://cdn.example/a.png'')) \<notin>
     set (snd (run sample_URL_hostname
       (mount \<lparr>avatarUrl = Some (js ''https://cdn.example/a.png''), name = [], bio = [],
               twitterLink = [], streamerMode = False\<rparr> 0)
       [UploadChange (Some (js ''blob:b'')), Unmount]))"
proof -
  have a: "avatarUrl \<lparr>avatarUrl = Some (js ''https://cdn.example/a.png''), name = [], bio = [],
               twitterLink = [], streamerMode = False\<rparr> = Some (js ''https://cdn.example/a.png'')"
    by simp
  have n: "\<not> startsWith (js ''https://cdn.example/a.png'') (js ''blob:'')"
    by (simp add: startsWith_def js_def)
  show ?thesis
    by (rule unmarked_initial_never_revoked [OF a n])
qed

text \<open>
  C7 as stated fails: a draft whose avatar is \<^verbatim>\<open>blob:restored\<close> gives the modal that
  value to start with, and the modal revokes it when it is unmounted, and also (twice)
  when a file is uploaded.
\<close>

theorem restored_blob_revoked_counterexample:
  "typed_values (initial (defaults None)
      (Some (JObj [(js ''avatarUrl'', JStr (js ''blob:restored''))]))) =
     Some \<lparr>avatarUrl = Some (js ''blob:restored''), name = [], bio = [], twitterLink = [],
           streamerMode = False\<rparr> \<and>
   snd (run sample_URL_hostname
      (mount \<lparr>avatarUrl = Some (js ''blob:restored''), name = [], bio = [], twitterLink = [],
              streamerMode = False\<rparr> 0) [Unmount]) =
     [(0, URL_revokeObjectURL (js ''blob:restored''))] \<and>
   calls_of is_revoke (snd (run sample_URL_hostname
      (mount \<lparr>avatarUrl = Some (js ''blob:restored''), name = [], bio = [], twitterLink = [],
              streamerMode = False\<rparr> 0) [UploadChange (Some (js ''blob:new''))])) =
     [(0, URL_revokeObjectURL (js ''blob:restored'')),
      (0, URL_revokeObjectURL (js ''blob:restored''))]"
proof -
  have i: "typed_values (initial (defaults None)
      (Some (JObj [(js ''avatarUrl'', JStr (js ''blob:restored''))]))) =
     Some \<lparr>avatarUrl = Some (js ''blob:restored''), name = [], bio = [], twitterLink = [],
           streamerMode = False\<rparr>"
    by (simp add: typed_values_def initial_def merged_def defaults_def own_props_def
        BIO_MAX_def js_def)
  have b: "startsWith (js ''blob:restored'') (js ''blob:'')"
    by (simp add: startsWith_def js_def)
  have ne: "js ''blob:new'' \<noteq> js ''blob:restored''"
    by (simp add: js_def)
  have u: "snd (run sample_URL_hostname
      (mount \<lparr>avatarUrl = Some (js ''blob:restored''), name = [], bio = [], twitterLink = [],
              streamerMode = False\<rparr> 0) [Unmount]) =
     [(0, URL_revokeObjectURL (js ''blob:restored''))]"
    using b by (simp add: step_def mount_def revoke_cleanup_def)
  have r: "calls_of is_revoke (snd (run sample_URL_hostname
      (mount \<lparr>avatarUrl = Some (js ''blob:restored''), name = [], bio = [], twitterLink = [],
              streamerMode = False\<rparr> 0) [UploadChange (Some (js ''blob:new''))])) =
     [(0, URL_revokeObjectURL (js ''blob:restored'')),
      (0, URL_revokeObjectURL (js ''blob:restored''))]"
    using b ne by (simp add: step_def mount_def render_def revoke_cleanup_def)
  show ?thesis
    using i u r by (intro conjI)
qed

text \<open>
  C6 fails on the code: after two uploads the first handle has been revoked twice, once
  by \<^verbatim>\<open>handleUploadChange\<close> and once by the cleanup of the effect on
  \<^verbatim>\<open>[avatarPreviewUrl]\<close>. The second handle is revoked once, at the first unmount.
\<close>

theorem superseded_handle_revoked_twice:
  "snd (run sample_URL_hostname
      (mount \<lparr>avatarUrl = None, name = [], bio = [], twitterLink = [],
              streamerMode = False\<rparr> 0)
      [UploadChange (Some (js ''blob:a'')), UploadChange (Some (js ''blob:b'')),
       Unmount, Unmount]) =
   [(0, URL_createObjectURL (js ''blob:a'')),
    (0, URL_revokeObjectURL (js ''blob:a'')),
    (0, URL_createObjectURL (js ''blob:b'')),
    (0, URL_revokeObjectURL (js ''blob:a'')),
    (0, URL_revokeObjectURL (js ''blob:b''))]"
proof -
  have b: "startsWith (js ''blob:a'') (js ''blob:'')" "startsWith (js ''blob:b'') (js ''blob:'')"
    by (simp_all add: startsWith_def js_def)
  have ne: "js ''blob:b'' \<noteq> js ''blob:a''"
    by (simp add: js_def)
  show ?thesis
    using b ne by (simp add: step_def mount_def render_def revoke_cleanup_def)
qed

end
